theory Spec2Isabelle
  imports Complex_Main
begin

section \<open>Data model\<close>

text \<open>
  The simulation engine of the policy game works on JavaScript numbers. They are modelled
  as real numbers: a value of type \<open>real\<close> stands for a finite, non-NaN number, and the
  arithmetic is exact. The declarations of \<open>types/GameTypes\<close> are not part of the
  sources at hand; the records below list the fields that \<open>buildInitialStats\<close>
  (App.tsx), \<open>exportToCsv\<close> (utils/export.ts), \<open>INITIAL_TRADE_MATRIX\<close> and the
  object literals of \<open>RegionalEconomySimulator\<close> give to the objects. Fields that the
  code treats as possibly absent (\<open>stats.tariffRevenue || 0\<close>) are options.
\<close>

record CountryStats =
  country :: string
  year :: real
  gdp_growth :: real
  unemployment :: real
  literacy_rate :: real
  life_expectancy :: real
  poverty_rate :: real
  co2_emissions :: real
  population :: real
  infant_mortality :: real
  health_expenditure :: real
  education_spending :: real
  infrastructure_investment :: real
  agriculture_spending :: real
  manufacturing_spending :: real
  services_spending :: real
  energy_spending :: real
  technology_spending :: real
  tourism_spending :: real
  environment_spending :: real
  trade_liberalization :: real
  tariff_rate :: real
  agriculture_gdp_percent :: real
  manufacturing_gdp_percent :: real
  services_gdp_percent :: real
  tariffRevenue :: "real option"
  consumerWelfare :: "real option"

text \<open>A policy decision \<open>{id, value, min, max}\<close>.\<close>

record PolicyDecision =
  d_id :: string
  d_value :: real
  d_min :: real
  d_max :: real

datatype Magnitude = low | medium | high

datatype Timeframe = immediate | short_term | medium_term | long_term

record PolicySpillover =
  sourceCountry :: string
  targetCountry :: string
  policyType :: string
  effect :: real
  description :: string
  magnitude :: Magnitude
  timeframe :: Timeframe
  sector :: "string option"

record TradeRelationship =
  tr_from :: string
  tr_to :: string
  tradeVolume :: real
  tariffRate :: real
  cooperation :: real

text \<open>
  An entry of \<open>eventPool\<close>. The flags \<open>region_wide\<close> and \<open>unique\<close> are \<open>False\<close> where
  the object literal leaves them out, and \<open>targets\<close> is \<open>None\<close> where it is left out.
\<close>

record CatalogEvent =
  c_id :: string
  c_name :: string
  c_probability :: real
  c_targets :: "string list option"
  c_region_wide :: bool
  c_description :: string
  c_effects :: "(string \<times> real) list"
  c_unique :: bool

text \<open>The event object that \<open>generateRegionalEvents\<close> returns, also an entry of \<open>history\<close>.\<close>

record RegionalEvent =
  e_id :: string
  e_name :: string
  e_description :: string
  e_year :: int
  e_effects :: "(string \<times> real) list"
  e_targetCountries :: "string list option"


section \<open>JavaScript idioms\<close>

text \<open>
  \<open>x || d\<close> on numbers: the default \<open>d\<close> replaces \<open>x\<close> when \<open>x\<close> is falsy, and the
  only falsy real number is \<open>0\<close>.
\<close>

definition orDefault :: "real \<Rightarrow> real \<Rightarrow> real" where
  "orDefault x d = (if x = 0 then d else x)"

text \<open>\<open>obj.key || d\<close> where the key may be absent: \<open>undefined\<close> is falsy too.\<close>

definition lookupOr :: "(string \<rightharpoonup> real) \<Rightarrow> string \<Rightarrow> real \<Rightarrow> real" where
  "lookupOr m k d = (case m k of None \<Rightarrow> d | Some v \<Rightarrow> orDefault v d)"

text \<open>\<open>if (obj.key)\<close>: the key is present and its number is not \<open>0\<close>.\<close>

definition truthy :: "(string \<rightharpoonup> real) \<Rightarrow> string \<Rightarrow> bool" where
  "truthy m k = (case m k of None \<Rightarrow> False | Some v \<Rightarrow> v \<noteq> 0)"

text \<open>\<open>decisions.find(d => d.id === k)?.value || dflt\<close>.\<close>

definition decisionValue :: "PolicyDecision list \<Rightarrow> string \<Rightarrow> real \<Rightarrow> real" where
  "decisionValue decisions k dflt =
     (case find (\<lambda>d. d_id d = k) decisions of
        None \<Rightarrow> dflt
      | Some d \<Rightarrow> orDefault (d_value d) dflt)"

section \<open>PolicySimulator.applyPolicyEffects (utils/PolicyModels.ts)\<close>

text \<open>
  The body of \<open>applyPolicyEffects\<close> in its order: the policy deltas and the derived KPI
  (lines 12 to 88), the inbound spillovers (90 to 114), the event effects (117 to 122),
  the random variation (125, 126), the bounds (128 to 135) and the persisted decisions
  (138 to 144). \<open>newStats\<close> starts as a copy of \<open>currentStats\<close>; every assignment to
  one of its fields is a record update.
\<close>

definition applyDecisions :: "CountryStats \<Rightarrow> PolicyDecision list \<Rightarrow> CountryStats" where
  "applyDecisions currentStats decisions =
     (let newStats = currentStats;
          tariffPolicy = decisionValue decisions ''tariffs'' 15;
          ntbPolicy = decisionValue decisions ''ntbs'' 60;
          connectivityPolicy = decisionValue decisions ''connectivity'' 5.0;
          trustPolicy = decisionValue decisions ''trust'' 50;
          agricultureSpending = decisionValue decisions ''agriculture'' 3.5;
          manufacturingSpending = decisionValue decisions ''manufacturing'' 2.0;
          servicesSpending = decisionValue decisions ''services'' 1.5;
          energySpending = decisionValue decisions ''energy'' 4.0;
          technologySpending = decisionValue decisions ''technology'' 1.0;
          educationChange = orDefault (education_spending currentStats) 4.0 - 4.0;
          newStats = newStats\<lparr>literacy_rate := literacy_rate newStats + educationChange * 0.25\<rparr>;
          newStats = newStats\<lparr>gdp_growth := gdp_growth newStats + educationChange * 0.03\<rparr>;
          healthChange = orDefault (health_expenditure currentStats) 3.0 - 3.0;
          newStats = newStats\<lparr>life_expectancy := life_expectancy newStats + healthChange * 0.08\<rparr>;
          newStats = newStats\<lparr>infant_mortality := infant_mortality newStats - healthChange * 0.3\<rparr>;
          newStats = newStats\<lparr>gdp_growth := gdp_growth newStats + healthChange * 0.02\<rparr>;
          infraChange = connectivityPolicy - orDefault (infrastructure_investment currentStats) 5.0;
          newStats = newStats\<lparr>gdp_growth := gdp_growth newStats + infraChange * 0.05\<rparr>;
          newStats = newStats\<lparr>unemployment := unemployment newStats - infraChange * 0.1\<rparr>;
          newStats = newStats\<lparr>poverty_rate := poverty_rate newStats - infraChange * 0.15\<rparr>;
          newStats = newStats\<lparr>infrastructure_investment := connectivityPolicy\<rparr>;
          agricultureChange = agricultureSpending - orDefault (agriculture_spending currentStats) 3.5;
          agriGdpShare = orDefault (agriculture_gdp_percent currentStats) 15.0 / 100;
          newStats = newStats\<lparr>gdp_growth := gdp_growth newStats + agricultureChange * 0.2 * agriGdpShare\<rparr>;
          newStats = newStats\<lparr>poverty_rate := poverty_rate newStats - agricultureChange * 0.5 * agriGdpShare\<rparr>;
          manufacturingChange = manufacturingSpending - orDefault (manufacturing_spending currentStats) 2.0;
          manuGdpShare = orDefault (manufacturing_gdp_percent currentStats) 20.0 / 100;
          newStats = newStats\<lparr>gdp_growth := gdp_growth newStats + manufacturingChange * 0.3 * manuGdpShare\<rparr>;
          newStats = newStats\<lparr>unemployment := unemployment newStats - manufacturingChange * 0.4 * manuGdpShare\<rparr>;
          servicesChange = servicesSpending - orDefault (services_spending currentStats) 1.5;
          servGdpShare = orDefault (services_gdp_percent currentStats) 50.0 / 100;
          newStats = newStats\<lparr>gdp_growth := gdp_growth newStats + servicesChange * 0.2 * servGdpShare\<rparr>;
          newStats = newStats\<lparr>unemployment := unemployment newStats - servicesChange * 0.25 * servGdpShare\<rparr>;
          energyChange = energySpending - orDefault (energy_spending currentStats) 4.0;
          newStats = newStats\<lparr>gdp_growth := gdp_growth newStats + energyChange * 0.1\<rparr>;
          newStats = newStats\<lparr>co2_emissions := co2_emissions newStats + energyChange * 0.05\<rparr>;
          technologyChange = technologySpending - orDefault (technology_spending currentStats) 1.0;
          newStats = newStats\<lparr>gdp_growth := gdp_growth newStats + technologyChange * 0.1\<rparr>;
          newStats = newStats\<lparr>literacy_rate := literacy_rate newStats + technologyChange * 0.1\<rparr>;
          tariffEffect = (tariffPolicy - orDefault (tariff_rate currentStats) 15) / 100;
          newStats = newStats\<lparr>gdp_growth := gdp_growth newStats - tariffEffect * 0.12\<rparr>;
          newStats = newStats\<lparr>unemployment := unemployment newStats + tariffEffect * 0.09\<rparr>;
          newStats = newStats\<lparr>poverty_rate := poverty_rate newStats + tariffEffect * 0.18\<rparr>;
          ntbEffect = (ntbPolicy - 60) / 100;
          newStats = newStats\<lparr>gdp_growth := gdp_growth newStats - ntbEffect * 0.08\<rparr>;
          cooperationEffect = (trustPolicy - 50) / 100;
          newStats = newStats\<lparr>gdp_growth := gdp_growth newStats + cooperationEffect * 0.06\<rparr>;
          newStats = newStats\<lparr>infrastructure_investment :=
                       infrastructure_investment newStats + cooperationEffect * 0.3\<rparr>;
          tradeVolumeProxy = 100 - (tariffPolicy * 0.5) - (ntbPolicy * 0.3)
                               + (connectivityPolicy * 2) + (trustPolicy * 0.2);
          newStats = newStats\<lparr>tariffRevenue := Some ((tariffPolicy / 100) * (tradeVolumeProxy * 0.5))\<rparr>
      in newStats)"

text \<open>The body of \<open>spilloverEffects.forEach\<close>: a switch on \<open>policyType\<close> with no default.\<close>

definition applySpillover :: "CountryStats \<Rightarrow> PolicySpillover \<Rightarrow> CountryStats" where
  "applySpillover newStats spillover =
     (if policyType spillover = ''trade_gdp'' then
        newStats\<lparr>gdp_growth := gdp_growth newStats + effect spillover\<rparr>
      else if policyType spillover = ''infrastructure'' then
        newStats\<lparr>infrastructure_investment := infrastructure_investment newStats + effect spillover,
                  gdp_growth := gdp_growth newStats + effect spillover * 0.1\<rparr>
      else if policyType spillover = ''environment'' then
        newStats\<lparr>co2_emissions := co2_emissions newStats + effect spillover\<rparr>
      else if policyType spillover = ''manufacturing'' then
        newStats\<lparr>gdp_growth := gdp_growth newStats + effect spillover * 0.1,
                  unemployment := unemployment newStats - effect spillover * 0.05\<rparr>
      else if policyType spillover = ''technology'' then
        newStats\<lparr>gdp_growth := gdp_growth newStats + effect spillover * 0.15,
                  literacy_rate := literacy_rate newStats + effect spillover * 0.3\<rparr>
      else if policyType spillover = ''energy'' then
        newStats\<lparr>gdp_growth := gdp_growth newStats + effect spillover * 0.08\<rparr>
      else newStats)"

text \<open>
  The body of \<open>Object.keys(eventEffects).forEach\<close>: the delta is added when the key is a
  field of the object that holds a number. \<open>country\<close> holds a string; \<open>tariffRevenue\<close>
  and \<open>consumerWelfare\<close> are fields only when they have been set; any other key is
  ignored.
\<close>

definition applyEventEffect :: "CountryStats \<Rightarrow> string \<times> real \<Rightarrow> CountryStats" where
  "applyEventEffect newStats kv =
     (let key = fst kv; delta = snd kv in
      if key = ''year'' then newStats\<lparr>year := year newStats + delta\<rparr>
      else if key = ''gdp_growth'' then newStats\<lparr>gdp_growth := gdp_growth newStats + delta\<rparr>
      else if key = ''unemployment'' then newStats\<lparr>unemployment := unemployment newStats + delta\<rparr>
      else if key = ''literacy_rate'' then newStats\<lparr>literacy_rate := literacy_rate newStats + delta\<rparr>
      else if key = ''life_expectancy'' then
        newStats\<lparr>life_expectancy := life_expectancy newStats + delta\<rparr>
      else if key = ''poverty_rate'' then newStats\<lparr>poverty_rate := poverty_rate newStats + delta\<rparr>
      else if key = ''co2_emissions'' then newStats\<lparr>co2_emissions := co2_emissions newStats + delta\<rparr>
      else if key = ''population'' then newStats\<lparr>population := population newStats + delta\<rparr>
      else if key = ''infant_mortality'' then
        newStats\<lparr>infant_mortality := infant_mortality newStats + delta\<rparr>
      else if key = ''health_expenditure'' then
        newStats\<lparr>health_expenditure := health_expenditure newStats + delta\<rparr>
      else if key = ''education_spending'' then
        newStats\<lparr>education_spending := education_spending newStats + delta\<rparr>
      else if key = ''infrastructure_investment'' then
        newStats\<lparr>infrastructure_investment := infrastructure_investment newStats + delta\<rparr>
      else if key = ''agriculture_spending'' then
        newStats\<lparr>agriculture_spending := agriculture_spending newStats + delta\<rparr>
      else if key = ''manufacturing_spending'' then
        newStats\<lparr>manufacturing_spending := manufacturing_spending newStats + delta\<rparr>
      else if key = ''services_spending'' then
        newStats\<lparr>services_spending := services_spending newStats + delta\<rparr>
      else if key = ''energy_spending'' then
        newStats\<lparr>energy_spending := energy_spending newStats + delta\<rparr>
      else if key = ''technology_spending'' then
        newStats\<lparr>technology_spending := technology_spending newStats + delta\<rparr>
      else if key = ''tourism_spending'' then
        newStats\<lparr>tourism_spending := tourism_spending newStats + delta\<rparr>
      else if key = ''environment_spending'' then
        newStats\<lparr>environment_spending := environment_spending newStats + delta\<rparr>
      else if key = ''trade_liberalization'' then
        newStats\<lparr>trade_liberalization := trade_liberalization newStats + delta\<rparr>
      else if key = ''tariff_rate'' then newStats\<lparr>tariff_rate := tariff_rate newStats + delta\<rparr>
      else if key = ''agriculture_gdp_percent'' then
        newStats\<lparr>agriculture_gdp_percent := agriculture_gdp_percent newStats + delta\<rparr>
      else if key = ''manufacturing_gdp_percent'' then
        newStats\<lparr>manufacturing_gdp_percent := manufacturing_gdp_percent newStats + delta\<rparr>
      else if key = ''services_gdp_percent'' then
        newStats\<lparr>services_gdp_percent := services_gdp_percent newStats + delta\<rparr>
      else if key = ''tariffRevenue'' then
        (case tariffRevenue newStats of
           None \<Rightarrow> newStats
         | Some t \<Rightarrow> newStats\<lparr>tariffRevenue := Some (t + delta)\<rparr>)
      else if key = ''consumerWelfare'' then
        (case consumerWelfare newStats of
           None \<Rightarrow> newStats
         | Some w \<Rightarrow> newStats\<lparr>consumerWelfare := Some (w + delta)\<rparr>)
      else newStats)"

text \<open>
  \<open>(Math.random() - 0.5) * 0.5\<close> added to \<open>gdp_growth\<close>; the draw of \<open>Math.random()\<close>
  is the argument \<open>rnd\<close>.
\<close>

definition addVariation :: "real \<Rightarrow> CountryStats \<Rightarrow> CountryStats" where
  "addVariation rnd newStats =
     (let randomVariation = (rnd - 0.5) * 0.5
      in newStats\<lparr>gdp_growth := gdp_growth newStats + randomVariation\<rparr>)"

definition applyBounds :: "CountryStats \<Rightarrow> CountryStats" where
  "applyBounds newStats =
     newStats\<lparr>literacy_rate := max 0 (min 100 (literacy_rate newStats)),
               unemployment := max 0.5 (min 50 (unemployment newStats)),
               poverty_rate := max 0 (min 90 (poverty_rate newStats)),
               life_expectancy := max 45 (min 90 (life_expectancy newStats)),
               gdp_growth := max (- 10) (min 15 (gdp_growth newStats)),
               co2_emissions := max 0 (co2_emissions newStats),
               infant_mortality := max 1 (min 150 (infant_mortality newStats)),
               population := max 100000 (population newStats)\<rparr>"

definition persistDecisions :: "PolicyDecision list \<Rightarrow> CountryStats \<Rightarrow> CountryStats" where
  "persistDecisions decisions newStats =
     newStats\<lparr>agriculture_spending := decisionValue decisions ''agriculture'' 3.5,
               manufacturing_spending := decisionValue decisions ''manufacturing'' 2.0,
               services_spending := decisionValue decisions ''services'' 1.5,
               energy_spending := decisionValue decisions ''energy'' 4.0,
               technology_spending := decisionValue decisions ''technology'' 1.0,
               tariff_rate := decisionValue decisions ''tariffs'' 15\<rparr>"

text \<open>The state before the bounds are applied: deltas, spillovers, events and variation.\<close>

definition unboundedStats ::
  "CountryStats \<Rightarrow> PolicyDecision list \<Rightarrow> PolicySpillover list \<Rightarrow> (string \<times> real) list
     \<Rightarrow> real \<Rightarrow> CountryStats" where
  "unboundedStats currentStats decisions spilloverEffects eventEffects rnd =
     addVariation rnd
       (foldl applyEventEffect
          (foldl applySpillover (applyDecisions currentStats decisions) spilloverEffects)
          eventEffects)"

definition applyPolicyEffects ::
  "CountryStats \<Rightarrow> PolicyDecision list \<Rightarrow> PolicySpillover list \<Rightarrow> (string \<times> real) list
     \<Rightarrow> real \<Rightarrow> CountryStats" where
  "applyPolicyEffects currentStats decisions spilloverEffects eventEffects rnd =
     persistDecisions decisions
       (applyBounds (unboundedStats currentStats decisions spilloverEffects eventEffects rnd))"

text \<open>
  The sum of the deltas that the event effects hold under a key, and the sum of the
  effects of the inbound spillovers of a policy type.
\<close>

definition eventDelta :: "string \<Rightarrow> (string \<times> real) list \<Rightarrow> real" where
  "eventDelta key eventEffects = sum_list (map snd (filter (\<lambda>kv. fst kv = key) eventEffects))"

definition spilloverTotal :: "string \<Rightarrow> PolicySpillover list \<Rightarrow> real" where
  "spilloverTotal ty spilloverEffects =
     sum_list (map effect (filter (\<lambda>sp. policyType sp = ty) spilloverEffects))"

section \<open>PolicySimulator.calculateScore\<close>

text \<open>The seven entries of \<open>improvements\<close>, in the order of the object literal.\<close>

definition improvements :: "CountryStats \<Rightarrow> CountryStats \<Rightarrow> real list" where
  "improvements finalStats initialStats =
     [ (gdp_growth finalStats - gdp_growth initialStats) * 15,
       (literacy_rate finalStats - literacy_rate initialStats) * 3,
       (life_expectancy finalStats - life_expectancy initialStats) * 8,
       (unemployment initialStats - unemployment finalStats) * 5,
       (poverty_rate initialStats - poverty_rate finalStats) * 4,
       (co2_emissions initialStats - co2_emissions finalStats) * 15,
       (infant_mortality initialStats - infant_mortality finalStats) * 2 ]"

definition calculateScore :: "CountryStats \<Rightarrow> CountryStats \<Rightarrow> real" where
  "calculateScore finalStats initialStats =
     (let vals = improvements finalStats initialStats;
          totalScore = foldl (\<lambda>sum val. sum + val) 0 vals;
          balanceBonus = (if list_all (\<lambda>val. val > - 50) vals then 100 else 0);
          extremePenalty = (if list_ex (\<lambda>val. val < - 100) vals then - 200 else 0)
      in max 0 (min 1000 (totalScore + 400 + balanceBonus + extremePenalty)))"

section \<open>RegionalEconomySimulator.calculateTradeSpillovers\<close>

definition hasEnergyTrade :: "string \<Rightarrow> string \<Rightarrow> bool" where
  "hasEnergyTrade country1 country2 =
     (let energyTradePairs =
            [(''India'', ''Bhutan''), (''India'', ''Nepal''),
             (''Pakistan'', ''Afghanistan''), (''India'', ''Bangladesh'')]
      in list_ex (\<lambda>pair. (fst pair = country1 \<and> snd pair = country2)
                       \<or> (fst pair = country2 \<and> snd pair = country1)) energyTradePairs)"

text \<open>\<open>x > hi ? 'high' : x > mid ? 'medium' : 'low'\<close>.\<close>

definition magnitudeOf :: "real \<Rightarrow> real \<Rightarrow> real \<Rightarrow> Magnitude" where
  "magnitudeOf x hi mid = (if x > hi then high else if x > mid then medium else low)"

text \<open>
  \<open>if (policyChanges.key) { ... spillovers.push(...) }\<close>: the block runs with the number
  stored under the key, here \<open>change\<close>, when the key is present and the number is
  not \<open>0\<close>.
\<close>

definition whenTruthy :: "(string \<rightharpoonup> real) \<Rightarrow> string \<Rightarrow> (real \<Rightarrow> 'a list) \<Rightarrow> 'a list" where
  "whenTruthy m k f = (case m k of None \<Rightarrow> [] | Some v \<Rightarrow> if v = 0 then [] else f v)"

text \<open>The body of \<open>tradingPartners.forEach\<close>: the spillovers pushed for one trade edge.\<close>

definition edgeSpillovers ::
  "string \<Rightarrow> (string \<rightharpoonup> real) \<Rightarrow> TradeRelationship \<Rightarrow> PolicySpillover list" where
  "edgeSpillovers source policyChanges trade =
     (let target = (if tr_from trade = source then tr_to trade else tr_from trade);
          tradeIntensity = tradeVolume trade / 100;
          cooperationFactor = cooperation trade / 100
      in
        whenTruthy policyChanges ''gdp_growth'' (\<lambda>change.
          let spilloverEffect = change * tradeIntensity * cooperationFactor * 0.25
          in [\<lparr>sourceCountry = source, targetCountry = target, policyType = ''trade_gdp'',
               effect = spilloverEffect,
               description = ''Trade spillover from '' @ source @ '''s economic growth'',
               magnitude = magnitudeOf spilloverEffect 0.1 0.05,
               timeframe = short_term, sector = None\<rparr>])
      @ whenTruthy policyChanges ''infrastructure_investment'' (\<lambda>change.
          let infraSpillover = (change - 5) * tradeIntensity * 0.12
          in [\<lparr>sourceCountry = source, targetCountry = target, policyType = ''infrastructure'',
               effect = infraSpillover,
               description = ''Cross-border infrastructure benefits from '' @ source,
               magnitude = magnitudeOf \<bar>infraSpillover\<bar> 0.08 0.04,
               timeframe = medium_term, sector = None\<rparr>])
      @ whenTruthy policyChanges ''co2_emissions'' (\<lambda>change.
          let envSpillover = change * 0.08
          in [\<lparr>sourceCountry = source, targetCountry = target, policyType = ''environment'',
               effect = envSpillover,
               description = ''Environmental impact from '' @ source @ '''s emissions'',
               magnitude = magnitudeOf \<bar>envSpillover\<bar> 0.05 0.02,
               timeframe = long_term, sector = None\<rparr>])
      @ whenTruthy policyChanges ''manufacturing_investment'' (\<lambda>change.
          let manufacturingSpillover = change * tradeIntensity * 0.1
          in [\<lparr>sourceCountry = source, targetCountry = target, policyType = ''manufacturing'',
               effect = manufacturingSpillover,
               description = ''Manufacturing competitiveness impact from '' @ source,
               magnitude = magnitudeOf \<bar>manufacturingSpillover\<bar> 0.06 0.03,
               timeframe = medium_term, sector = Some ''manufacturing''\<rparr>])
      @ whenTruthy policyChanges ''technology_investment'' (\<lambda>change.
          let techSpillover = change * cooperationFactor * 0.15
          in [\<lparr>sourceCountry = source, targetCountry = target, policyType = ''technology'',
               effect = techSpillover,
               description = ''Technology transfer and innovation spillover from '' @ source,
               magnitude = magnitudeOf \<bar>techSpillover\<bar> 0.08 0.04,
               timeframe = long_term, sector = Some ''technology''\<rparr>])
      @ whenTruthy policyChanges ''energy_investment'' (\<lambda>change.
          if hasEnergyTrade source target then
            let energySpillover = change * 0.2
            in [\<lparr>sourceCountry = source, targetCountry = target, policyType = ''energy'',
                 effect = energySpillover,
                 description = ''Energy security and pricing impact from '' @ source,
                 magnitude = magnitudeOf \<bar>energySpillover\<bar> 0.1 0.05,
                 timeframe = immediate, sector = Some ''energy''\<rparr>]
          else []))"

definition calculateTradeSpillovers ::
  "string \<Rightarrow> (string \<rightharpoonup> real) \<Rightarrow> TradeRelationship list \<Rightarrow> PolicySpillover list" where
  "calculateTradeSpillovers source policyChanges tradeMatrix =
     (let tradingPartners =
            filter (\<lambda>t. tr_from t = source \<or> tr_to t = source) tradeMatrix
      in concat (map (edgeSpillovers source policyChanges) tradingPartners))"

section \<open>PolicySimulator.simulateRegionalEffects\<close>

text \<open>The body of \<open>decisions.forEach\<close>: a switch on \<open>decision.id\<close> with no default.\<close>

definition extractPolicyChange :: "(string \<rightharpoonup> real) \<Rightarrow> PolicyDecision \<Rightarrow> (string \<rightharpoonup> real)" where
  "extractPolicyChange policyChanges decision =
     (if d_id decision = ''education'' then policyChanges(''education'' \<mapsto> d_value decision)
      else if d_id decision = ''health'' then policyChanges(''health'' \<mapsto> d_value decision)
      else if d_id decision = ''infrastructure'' then
        policyChanges(''infrastructure'' \<mapsto> d_value decision)
      else if d_id decision = ''environment'' then
        policyChanges(''environment'' \<mapsto> d_value decision)
      else if d_id decision = ''agriculture'' then
        policyChanges(''agriculture'' \<mapsto> d_value decision)
      else if d_id decision = ''manufacturing'' then
        policyChanges(''manufacturing'' \<mapsto> d_value decision)
      else if d_id decision = ''services'' then policyChanges(''services'' \<mapsto> d_value decision)
      else if d_id decision = ''energy'' then policyChanges(''energy'' \<mapsto> d_value decision)
      else if d_id decision = ''technology'' then
        policyChanges(''technology'' \<mapsto> d_value decision)
      else if d_id decision = ''tourism'' then policyChanges(''tourism'' \<mapsto> d_value decision)
      else if d_id decision = ''trade'' then policyChanges(''trade'' \<mapsto> d_value decision)
      else if d_id decision = ''tariff'' then policyChanges(''tariff'' \<mapsto> d_value decision)
      else if d_id decision = ''cooperation'' then
        policyChanges(''cooperation'' \<mapsto> d_value decision)
      else policyChanges)"

definition extractPolicyChanges :: "PolicyDecision list \<Rightarrow> (string \<rightharpoonup> real)" where
  "extractPolicyChanges decisions = foldl extractPolicyChange Map.empty decisions"

text \<open>The keys that the switch writes.\<close>

definition extractedKeys :: "string list" where
  "extractedKeys =
     [''education'', ''health'', ''infrastructure'', ''environment'', ''agriculture'',
      ''manufacturing'', ''services'', ''energy'', ''technology'', ''tourism'', ''trade'',
      ''tariff'', ''cooperation'']"

text \<open>
  The body of \<open>spillovers.forEach\<close>: the list of the target country is created when it
  is missing, and the spillover is pushed onto it.
\<close>

definition pushSpillover ::
  "(string \<rightharpoonup> PolicySpillover list) \<Rightarrow> PolicySpillover \<Rightarrow> (string \<rightharpoonup> PolicySpillover list)" where
  "pushSpillover spilloversByCountry spillover =
     (case spilloversByCountry (targetCountry spillover) of
        None \<Rightarrow> spilloversByCountry(targetCountry spillover \<mapsto> [spillover])
      | Some l \<Rightarrow> spilloversByCountry(targetCountry spillover \<mapsto> l @ [spillover]))"

text \<open>
  The body of \<open>Object.keys(allCountries).forEach\<close>. \<open>allDecisions[sourceCountry] || []\<close>
  is the empty list for a country with no entry.
\<close>

definition collectSpillovers ::
  "(string \<rightharpoonup> PolicyDecision list) \<Rightarrow> TradeRelationship list
     \<Rightarrow> (string \<rightharpoonup> PolicySpillover list) \<Rightarrow> string \<Rightarrow> (string \<rightharpoonup> PolicySpillover list)" where
  "collectSpillovers allDecisions tradeMatrix spilloversByCountry source =
     (let decisions = (case allDecisions source of None \<Rightarrow> [] | Some ds \<Rightarrow> ds);
          policyChanges = extractPolicyChanges decisions;
          spillovers = calculateTradeSpillovers source policyChanges tradeMatrix
      in foldl pushSpillover spilloversByCountry spillovers)"

text \<open>
  \<open>allCountries\<close> is an object keyed by country name: a list of pairs in the order of
  \<open>Object.keys\<close>.
\<close>

definition simulateRegionalEffects ::
  "(string \<times> CountryStats) list \<Rightarrow> (string \<rightharpoonup> PolicyDecision list) \<Rightarrow> TradeRelationship list
     \<Rightarrow> (string \<rightharpoonup> PolicySpillover list)" where
  "simulateRegionalEffects allCountries allDecisions tradeMatrix =
     foldl (collectSpillovers allDecisions tradeMatrix) Map.empty (map fst allCountries)"

section \<open>RegionalEconomySimulator.generateRegionalEvents\<close>

text \<open>The catalog \<open>eventPool\<close>, in the order of the array literal.\<close>

definition eventPool :: "CatalogEvent list" where
  "eventPool =
     [
      \<lparr>c_id = ''monsoon_floods'', c_name = ''Severe Monsoon Floods'', c_probability = 0.08,
        c_targets = Some [''Bangladesh'', ''India'', ''Pakistan''], c_region_wide = False,
        c_description =
              ''Unusually heavy monsoon rains have caused widespread flooding, ''
            @ ''displacing thousands and damaging crops and infrastructure.'',
        c_effects = [(''gdp_growth'', (- 0.6)), (''poverty_rate'', 1.5), (''infrastructure_investment'', (- 1.0))],
        c_unique = False\<rparr>,
      \<lparr>c_id = ''cyclone_bay_of_bengal'', c_name = ''Cyclone in Bay of Bengal'', c_probability = 0.06,
        c_targets = Some [''Bangladesh'', ''India'', ''Sri Lanka''], c_region_wide = False,
        c_description =
              ''A powerful cyclone makes landfall, devastating coastal communities and ''
            @ ''disrupting port activities.'',
        c_effects = [(''gdp_growth'', (- 0.8)), (''population'', (- 0.005)), (''infrastructure_investment'', (- 1.5))],
        c_unique = False\<rparr>,
      \<lparr>c_id = ''drought'', c_name = ''Severe Drought'', c_probability = 0.05,
        c_targets = Some [''Pakistan'', ''India'', ''Afghanistan''], c_region_wide = False,
        c_description =
              ''A prolonged drought has led to water shortages and crop failures, ''
            @ ''impacting food security.'',
        c_effects = [(''gdp_growth'', (- 0.5)), (''agriculture_gdp_percent'', (- 1.0)), (''poverty_rate'', 1.2)],
        c_unique = False\<rparr>,
      \<lparr>c_id = ''global_recession'', c_name = ''Global Economic Recession'', c_probability = 0.07,
        c_targets = None, c_region_wide = True,
        c_description =
              ''A global economic downturn reduces demand for exports and slows ''
            @ ''foreign investment across the region.'',
        c_effects = [(''gdp_growth'', (- 1.0)), (''unemployment'', 1.5)],
        c_unique = False\<rparr>,
      \<lparr>c_id = ''oil_price_shock'', c_name = ''Oil Price Shock'', c_probability = 0.08,
        c_targets = None, c_region_wide = True,
        c_description =
              ''A sudden surge in global oil prices increases import costs and fuels ''
            @ ''inflation.'',
        c_effects = [(''gdp_growth'', (- 0.4)), (''co2_emissions'', (- 0.1))],
        c_unique = False\<rparr>,
      \<lparr>c_id = ''fdi_boom'', c_name = ''Major Foreign Investment'', c_probability = 0.05,
        c_targets = Some [''India'', ''Bangladesh''], c_region_wide = False,
        c_description =
              ''A major multinational corporation announces significant investment in ''
            @ ''the tech and manufacturing sectors, boosting employment and growth.'',
        c_effects = [(''gdp_growth'', 0.8), (''unemployment'', (- 0.5)), (''technology_spending'', 0.5)],
        c_unique = True\<rparr>,
      \<lparr>c_id = ''regional_cooperation_summit'', c_name = ''Successful Regional Summit'', c_probability = 0.15,
        c_targets = None, c_region_wide = True,
        c_description =
              ''A successful regional summit leads to new agreements on trade ''
            @ ''facilitation and cross-border projects.'',
        c_effects = [(''trust'', 10), (''connectivity'', 0.5)],
        c_unique = False\<rparr>,
      \<lparr>c_id = ''border_tensions'', c_name = ''Border Tensions Flare Up'', c_probability = 0.08,
        c_targets = Some [''India'', ''Pakistan''], c_region_wide = False,
        c_description =
              ''Renewed tensions along the border lead to trade disruptions and ''
            @ ''decreased political trust.'',
        c_effects = [(''trust'', (- 15)), (''gdp_growth'', (- 0.3))],
        c_unique = False\<rparr>,
      \<lparr>c_id = ''health_breakthrough'', c_name = ''Public Health Breakthrough'', c_probability = 0.04,
        c_targets = Some [''India'', ''Bangladesh'', ''Sri Lanka''], c_region_wide = False,
        c_description =
              ''A new vaccine program, shared between nations, dramatically reduces ''
            @ ''the incidence of a major disease.'',
        c_effects = [(''life_expectancy'', 0.5), (''health_expenditure'', 0.2)],
        c_unique = True\<rparr>,
      \<lparr>c_id = ''himalayan_earthquake'', c_name = ''Major Himalayan Earthquake'', c_probability = 0.03,
        c_targets = Some [''Nepal'', ''Bhutan'', ''India''], c_region_wide = False,
        c_description =
              ''A major earthquake has struck the Himalayan region, causing ''
            @ ''significant damage to infrastructure and requiring international aid.'',
        c_effects = [(''gdp_growth'', (- 1.2)), (''infrastructure_investment'', (- 2.5)), (''poverty_rate'', 2.0)],
        c_unique = True\<rparr>
     ]"

text \<open>
  Randomness: \<open>rnd n\<close> is the result of the \<open>n\<close>-th call of \<open>Math.random()\<close> within one
  call of \<open>generateRegionalEvents\<close>, counted from \<open>0\<close>; every draw lies in \<open>[0, 1)\<close>.

  \<open>potentialEvents.sort(() => 0.5 - Math.random())\<close> hands a comparator that ignores its
  arguments to the sort of the JavaScript engine. Which comparisons the engine makes, and
  so how many draws it takes and which order results, is the engine's choice: the sort is
  a parameter \<open>sortArray rnd i xs\<close>, which gets the draws, the index \<open>i\<close> of the next
  draw and the array, and returns the array as sorted with the index of the next draw
  after the sort.
\<close>

type_synonym 'a arraySort = "(nat \<Rightarrow> real) \<Rightarrow> nat \<Rightarrow> 'a list \<Rightarrow> 'a list \<times> nat"

text \<open>The gate at the start of the call: \<open>Math.random() > 0.6\<close>.\<close>

definition gateCloses :: "real \<Rightarrow> bool" where
  "gateCloses draw \<longleftrightarrow> draw > 0.6"

definition effectiveProbability :: "real \<Rightarrow> CatalogEvent \<Rightarrow> real" where
  "effectiveProbability cooperationIndex event =
     (let eventProbability = c_probability event;
          eventProbability =
            (if c_id event = ''regional_cooperation_summit''
             then eventProbability * (cooperationIndex / 50) else eventProbability);
          eventProbability =
            (if c_id event = ''border_tensions''
             then eventProbability * ((100 - cooperationIndex) / 50) else eventProbability)
      in eventProbability)"

text \<open>
  The loop over the shuffled events: the first event whose draw is below its probability
  is returned. \<open>roster\<close> is \<open>SOUTH_ASIAN_COUNTRIES.map(c => c.name)\<close>, from a module
  that is not among the sources.
\<close>

fun firstTriggered ::
  "string list \<Rightarrow> int \<Rightarrow> real \<Rightarrow> (nat \<Rightarrow> real) \<Rightarrow> nat \<Rightarrow> CatalogEvent list
     \<Rightarrow> RegionalEvent option" where
  "firstTriggered roster yr cooperationIndex rnd i [] = None"
| "firstTriggered roster yr cooperationIndex rnd i (event # rest) =
     (if rnd i < effectiveProbability cooperationIndex event then
        Some \<lparr>e_id = c_id event, e_name = c_name event, e_description = c_description event,
              e_year = yr, e_effects = c_effects event,
              e_targetCountries = (if c_region_wide event then Some roster else c_targets event)\<rparr>
      else firstTriggered roster yr cooperationIndex rnd (Suc i) rest)"

definition stabilityEvent :: "string list \<Rightarrow> int \<Rightarrow> RegionalEvent" where
  "stabilityEvent roster yr =
     \<lparr>e_id = ''no_major_event'', e_name = ''A Period of Stability'',
      e_description =
          ''The region experiences a period of relative stability, ''
        @ ''allowing governments to focus on domestic policy.'',
      e_year = yr, e_effects = [(''gdp_growth'', 0.1)], e_targetCountries = Some roster\<rparr>"

definition generateRegionalEvents ::
  "CatalogEvent arraySort \<Rightarrow> string list \<Rightarrow> int \<Rightarrow> real \<Rightarrow> RegionalEvent list
     \<Rightarrow> (nat \<Rightarrow> real) \<Rightarrow> RegionalEvent list" where
  "generateRegionalEvents sortArray roster yr cooperationIndex history rnd =
     (if gateCloses (rnd 0) then []
      else
        let occurredEventIds = set (map e_id history);
            potentialEvents =
              filter (\<lambda>event. \<not> (c_unique event \<and> c_id event \<in> occurredEventIds)) eventPool;
            shuffled = sortArray rnd 1 potentialEvents
        in case firstTriggered roster yr cooperationIndex rnd (snd shuffled) (fst shuffled) of
             Some ev \<Rightarrow> [ev]
           | None \<Rightarrow> if yr mod 3 = 0 then [stabilityEvent roster yr] else [])"

text \<open>
  One engine for the examples: an insertion sort that asks the comparator once for each
  comparison; a negative result \<open>0.5 - draw\<close> puts the new element first.
\<close>

fun insertBy :: "(nat \<Rightarrow> real) \<Rightarrow> nat \<Rightarrow> 'a \<Rightarrow> 'a list \<Rightarrow> 'a list \<times> nat" where
  "insertBy rnd i x [] = ([x], i)"
| "insertBy rnd i x (y # ys) =
     (if 0.5 - rnd i < 0 then (x # y # ys, Suc i)
      else (case insertBy rnd (Suc i) x ys of (zs, j) \<Rightarrow> (y # zs, j)))"

fun insertionSort :: "'a arraySort" where
  "insertionSort rnd i [] = ([], i)"
| "insertionSort rnd i (x # xs) =
     (case insertionSort rnd i xs of (ys, j) \<Rightarrow> insertBy rnd j x ys)"

text \<open>
  The share of the \<open>N\<close> equally likely draws \<open>0/N, 1/N, ..., (N-1)/N\<close> on which the gate
  closes.
\<close>

definition gateClosedShare :: "nat \<Rightarrow> real" where
  "gateClosedShare N =
     real (length (filter (\<lambda>k. gateCloses (real k / real N)) [0..<N])) / real N"

text \<open>
  The share of the \<open>N\<close> equally likely first draws \<open>0/N, 1/N, ..., (N-1)/N\<close> on which a
  call of \<open>generateRegionalEvents\<close> returns the empty list, the later draws being those
  of \<open>rnd\<close>.
\<close>

definition emptyReturnShare ::
  "CatalogEvent arraySort \<Rightarrow> string list \<Rightarrow> int \<Rightarrow> real \<Rightarrow> RegionalEvent list
     \<Rightarrow> (nat \<Rightarrow> real) \<Rightarrow> nat \<Rightarrow> real" where
  "emptyReturnShare sortArray roster yr cooperationIndex history rnd N =
     real (length (filter
        (\<lambda>k. generateRegionalEvents sortArray roster yr cooperationIndex history
                (rnd(0 := real k / real N)) = [])
        [0..<N])) / real N"

section \<open>RegionalEconomySimulator.updateTradeMatrix\<close>

text \<open>\<open>policyChanges[name] || {}\<close>.\<close>

definition changesOf :: "(string \<rightharpoonup> (string \<rightharpoonup> real)) \<Rightarrow> string \<Rightarrow> (string \<rightharpoonup> real)" where
  "changesOf policyChanges name = (case policyChanges name of None \<Rightarrow> Map.empty | Some m \<Rightarrow> m)"

text \<open>
  The function mapped over \<open>currentMatrix\<close>. Inside \<open>if (sourceChanges.key)\<close> the
  number under the key is present and not \<open>0\<close>, so \<open>lookupOr sourceChanges key 0\<close> is
  that number.
\<close>

definition updateTrade :: "(string \<rightharpoonup> (string \<rightharpoonup> real)) \<Rightarrow> TradeRelationship \<Rightarrow> TradeRelationship" where
  "updateTrade policyChanges trade =
     (let sourceChanges = changesOf policyChanges (tr_from trade);
          targetChanges = changesOf policyChanges (tr_to trade);
          newTradeVolume = tradeVolume trade;
          newTariffRate = tariffRate trade;
          newCooperation = cooperation trade;
          opennessOn = truthy sourceChanges ''trade_openness'';
          openness = lookupOr sourceChanges ''trade_openness'' 0 / 100;
          newTradeVolume = (if opennessOn then newTradeVolume * (1 + openness * 0.1)
                            else newTradeVolume);
          newTariffRate = (if opennessOn then newTariffRate * (1 - openness * 0.2)
                           else newTariffRate);
          avgInfra = (lookupOr sourceChanges ''infrastructure_investment'' 0
                      + lookupOr targetChanges ''infrastructure_investment'' 0) / 2;
          newTradeVolume =
            (if truthy sourceChanges ''infrastructure_investment''
                \<or> truthy targetChanges ''infrastructure_investment''
             then newTradeVolume * (1 + (avgInfra - 5) * 0.02) else newTradeVolume);
          newCooperation =
            (if truthy sourceChanges ''cooperation_policy''
             then max 0 (min 100 (newCooperation + lookupOr sourceChanges ''cooperation_policy'' 0))
             else newCooperation)
      in trade\<lparr>tradeVolume := max 0 newTradeVolume,
               tariffRate := max 0 (min 50 newTariffRate),
               cooperation := newCooperation\<rparr>)"

definition updateTradeMatrix ::
  "TradeRelationship list \<Rightarrow> (string \<rightharpoonup> (string \<rightharpoonup> real)) \<Rightarrow> TradeRelationship list" where
  "updateTradeMatrix currentMatrix policyChanges = map (updateTrade policyChanges) currentMatrix"

section \<open>Example inputs\<close>

text \<open>
  A state with the fallback values of \<open>buildInitialStats\<close> and of the default policy
  levers, and inputs for the examples below.
\<close>

definition exampleStats :: CountryStats where
  "exampleStats =
     \<lparr>country = ''Nepal'', year = 2023, gdp_growth = 3.5, unemployment = 5.0,
      literacy_rate = 70.0, life_expectancy = 65.0, poverty_rate = 20.0, co2_emissions = 2.0,
      population = 50000000, infant_mortality = 30.0, health_expenditure = 52,
      education_spending = 4.0, infrastructure_investment = 5.0, agriculture_spending = 3.5,
      manufacturing_spending = 2.0, services_spending = 1.5, energy_spending = 4.0,
      technology_spending = 1.0, tourism_spending = 0.8, environment_spending = 2.0,
      trade_liberalization = 50, tariff_rate = 15, agriculture_gdp_percent = 15.0,
      manufacturing_gdp_percent = 20.0, services_gdp_percent = 50.0,
      tariffRevenue = None, consumerWelfare = None\<rparr>"

definition mkDecision :: "string \<Rightarrow> real \<Rightarrow> PolicyDecision" where
  "mkDecision k v = \<lparr>d_id = k, d_value = v, d_min = 0, d_max = 100\<rparr>"

definition technologySpillover :: PolicySpillover where
  "technologySpillover =
     \<lparr>sourceCountry = ''India'', targetCountry = ''Nepal'', policyType = ''technology'',
      effect = 0.2, description = ''Technology transfer and innovation spillover from India'',
      magnitude = high, timeframe = long_term, sector = Some ''technology''\<rparr>"

definition infrastructureSpillover :: PolicySpillover where
  "infrastructureSpillover =
     \<lparr>sourceCountry = ''India'', targetCountry = ''Nepal'', policyType = ''infrastructure'',
      effect = 0.25, description = ''Cross-border infrastructure benefits from India'',
      magnitude = high, timeframe = medium_term, sector = None\<rparr>"

definition frozenEdge :: TradeRelationship where
  "frozenEdge = \<lparr>tr_from = ''India'', tr_to = ''Nepal'', tradeVolume = 6.8, tariffRate = 5.0,
                 cooperation = 0\<rparr>"

definition busyEdge :: TradeRelationship where
  "busyEdge = \<lparr>tr_from = ''India'', tr_to = ''Nepal'', tradeVolume = 100, tariffRate = 5.0,
               cooperation = 85\<rparr>"

text \<open>
  The policy changes that \<open>handleNextYear\<close> (App.tsx) builds from a \<open>connectivity\<close>
  decision of \<open>10\<close> in both countries and a \<open>trust\<close> decision of \<open>70\<close> in India.
\<close>

definition connectivityPush :: "string \<rightharpoonup> (string \<rightharpoonup> real)" where
  "connectivityPush =
     [''India'' \<mapsto> [''infrastructure_investment'' \<mapsto> 10, ''cooperation_policy'' \<mapsto> 20],
      ''Nepal'' \<mapsto> [''infrastructure_investment'' \<mapsto> 10]]"

definition roster8 :: "string list" where
  "roster8 = [''Afghanistan'', ''Bangladesh'', ''Bhutan'', ''India'', ''Maldives'', ''Nepal'',
              ''Pakistan'', ''Sri Lanka'']"

definition earthquake2024 :: RegionalEvent where
  "earthquake2024 =
     \<lparr>e_id = ''himalayan_earthquake'', e_name = ''Major Himalayan Earthquake'',
      e_description = ''A major earthquake has struck the Himalayan region.'',
      e_year = 2024, e_effects = [(''gdp_growth'', - 1.2)],
      e_targetCountries = Some [''Nepal'', ''Bhutan'', ''India'']\<rparr>"

section \<open>Bounds of the outcome indicators\<close>

text \<open>
  C1. Whatever the current state, the decisions, the spillovers, the event effects and the
  random draw, every bounded outcome field of the state that \<open>applyPolicyEffects\<close>
  returns lies in its interval: \<open>gdp_growth\<close> in \<open>[-10, 15]\<close>, \<open>unemployment\<close> in
  \<open>[0.5, 50]\<close>, \<open>literacy_rate\<close> in \<open>[0, 100]\<close>, \<open>life_expectancy\<close> in \<open>[45, 90]\<close>,
  \<open>poverty_rate\<close> in \<open>[0, 90]\<close>, \<open>co2_emissions\<close> at least \<open>0\<close>, \<open>infant_mortality\<close> in
  \<open>[1, 150]\<close> and \<open>population\<close> at least \<open>100000\<close>.
\<close>

theorem applyPolicyEffects_bounds:
  "- 10 \<le> gdp_growth (applyPolicyEffects s ds sp ev r)
   \<and> gdp_growth (applyPolicyEffects s ds sp ev r) \<le> 15
   \<and> 0.5 \<le> unemployment (applyPolicyEffects s ds sp ev r)
   \<and> unemployment (applyPolicyEffects s ds sp ev r) \<le> 50
   \<and> 0 \<le> literacy_rate (applyPolicyEffects s ds sp ev r)
   \<and> literacy_rate (applyPolicyEffects s ds sp ev r) \<le> 100
   \<and> 45 \<le> life_expectancy (applyPolicyEffects s ds sp ev r)
   \<and> life_expectancy (applyPolicyEffects s ds sp ev r) \<le> 90
   \<and> 0 \<le> poverty_rate (applyPolicyEffects s ds sp ev r)
   \<and> poverty_rate (applyPolicyEffects s ds sp ev r) \<le> 90
   \<and> 0 \<le> co2_emissions (applyPolicyEffects s ds sp ev r)
   \<and> 1 \<le> infant_mortality (applyPolicyEffects s ds sp ev r)
   \<and> infant_mortality (applyPolicyEffects s ds sp ev r) \<le> 150
   \<and> 100000 \<le> population (applyPolicyEffects s ds sp ev r)"
  by (simp add: applyPolicyEffects_def persistDecisions_def applyBounds_def)

section \<open>Policy memory\<close>

lemma infrastructure_investment_applyDecisions:
  "infrastructure_investment (applyDecisions s ds) =
     decisionValue ds ''connectivity'' 5 + (decisionValue ds ''trust'' 50 - 50) / 100 * 0.3"
  by (simp add: applyDecisions_def Let_def)

lemma education_spending_applyDecisions:
  "education_spending (applyDecisions s ds) = education_spending s"
  by (simp add: applyDecisions_def Let_def)

lemma infrastructure_investment_plain:
  "infrastructure_investment (applyPolicyEffects s ds [] [] r) =
     decisionValue ds ''connectivity'' 5 + (decisionValue ds ''trust'' 50 - 50) / 100 * 0.3"
  by (simp add: applyPolicyEffects_def persistDecisions_def applyBounds_def unboundedStats_def
      addVariation_def infrastructure_investment_applyDecisions)

lemma education_spending_plain:
  "education_spending (applyPolicyEffects s ds [] [] r) = education_spending s"
  by (simp add: applyPolicyEffects_def persistDecisions_def applyBounds_def unboundedStats_def
      addVariation_def education_spending_applyDecisions)

lemma tariff_rate_applyPolicyEffects:
  "tariff_rate (applyPolicyEffects s ds sp ev r) = decisionValue ds ''tariffs'' 15"
  by (simp add: applyPolicyEffects_def persistDecisions_def)

lemma applySpillover_memory:
  "education_spending (applySpillover s sp) = education_spending s"
  "health_expenditure (applySpillover s sp) = health_expenditure s"
  "infrastructure_investment (applySpillover s sp) =
     infrastructure_investment s + (if policyType sp = ''infrastructure'' then effect sp else 0)"
  by (simp_all add: applySpillover_def)

lemma foldl_applySpillover_memory:
  "education_spending (foldl applySpillover s sps) = education_spending s"
  "health_expenditure (foldl applySpillover s sps) = health_expenditure s"
  "infrastructure_investment (foldl applySpillover s sps) =
     infrastructure_investment s + spilloverTotal ''infrastructure'' sps"
  by (induction sps arbitrary: s) (simp_all add: applySpillover_memory spilloverTotal_def)

lemma applyEventEffect_memory:
  "education_spending (applyEventEffect s kv) =
     education_spending s + (if fst kv = ''education_spending'' then snd kv else 0)"
  "health_expenditure (applyEventEffect s kv) =
     health_expenditure s + (if fst kv = ''health_expenditure'' then snd kv else 0)"
  "infrastructure_investment (applyEventEffect s kv) =
     infrastructure_investment s + (if fst kv = ''infrastructure_investment'' then snd kv else 0)"
  by (simp_all add: applyEventEffect_def Let_def split: option.splits)

lemma foldl_applyEventEffect_memory:
  "education_spending (foldl applyEventEffect s ev) =
     education_spending s + eventDelta ''education_spending'' ev"
  "health_expenditure (foldl applyEventEffect s ev) =
     health_expenditure s + eventDelta ''health_expenditure'' ev"
  "infrastructure_investment (foldl applyEventEffect s ev) =
     infrastructure_investment s + eventDelta ''infrastructure_investment'' ev"
  by (induction ev arbitrary: s) (simp_all add: applyEventEffect_memory eventDelta_def)

lemma health_expenditure_applyDecisions:
  "health_expenditure (applyDecisions s ds) = health_expenditure s"
  by (simp add: applyDecisions_def Let_def)

lemma unpersisted_memory:
  "education_spending (applyPolicyEffects s ds sp ev r) =
     education_spending s + eventDelta ''education_spending'' ev"
  "health_expenditure (applyPolicyEffects s ds sp ev r) =
     health_expenditure s + eventDelta ''health_expenditure'' ev"
  "infrastructure_investment (applyPolicyEffects s ds sp ev r) =
     decisionValue ds ''connectivity'' 5 + (decisionValue ds ''trust'' 50 - 50) / 100 * 0.3
       + spilloverTotal ''infrastructure'' sp + eventDelta ''infrastructure_investment'' ev"
  by (simp_all add: applyPolicyEffects_def persistDecisions_def applyBounds_def
      unboundedStats_def addVariation_def foldl_applyEventEffect_memory
      foldl_applySpillover_memory education_spending_applyDecisions
      health_expenditure_applyDecisions infrastructure_investment_applyDecisions)

text \<open>
  C3, as the code has it. The fields written at the end of \<open>applyPolicyEffects\<close> are
  those of the levers \<open>agriculture\<close>, \<open>manufacturing\<close>, \<open>services\<close>, \<open>energy\<close>,
  \<open>technology\<close> and \<open>tariffs\<close>: when the first decision with such an id has a value other
  than \<open>0\<close>, the field of the returned state (\<open>agriculture_spending\<close>,
  \<open>manufacturing_spending\<close>, \<open>services_spending\<close>, \<open>energy_spending\<close>,
  \<open>technology_spending\<close>, \<open>tariff_rate\<close>) equals that value, whatever the spillovers, the
  event effects and the random draw. The other three fields are not the decisions:
  \<open>education_spending\<close> and \<open>health_expenditure\<close> are their previous values plus the
  event effects under their keys, and \<open>infrastructure_investment\<close> is the value of the
  \<open>connectivity\<close> lever (default \<open>5\<close>) plus \<open>0.3 * (trust - 50) / 100\<close> (\<open>trust\<close> lever,
  default \<open>50\<close>), plus the effects of the inbound \<open>infrastructure\<close> spillovers, plus the
  event effects under its key.
\<close>

theorem persisted_levers_equal_decisions:
  "(find (\<lambda>d. d_id d = k) ds = Some d \<and> d_value d \<noteq> 0 \<longrightarrow>
     (k = ''agriculture'' \<longrightarrow>
        agriculture_spending (applyPolicyEffects s ds sp ev r) = d_value d)
   \<and> (k = ''manufacturing'' \<longrightarrow>
        manufacturing_spending (applyPolicyEffects s ds sp ev r) = d_value d)
   \<and> (k = ''services'' \<longrightarrow>
        services_spending (applyPolicyEffects s ds sp ev r) = d_value d)
   \<and> (k = ''energy'' \<longrightarrow>
        energy_spending (applyPolicyEffects s ds sp ev r) = d_value d)
   \<and> (k = ''technology'' \<longrightarrow>
        technology_spending (applyPolicyEffects s ds sp ev r) = d_value d)
   \<and> (k = ''tariffs'' \<longrightarrow>
        tariff_rate (applyPolicyEffects s ds sp ev r) = d_value d))
   \<and> education_spending (applyPolicyEffects s ds sp ev r) =
       education_spending s + eventDelta ''education_spending'' ev
   \<and> health_expenditure (applyPolicyEffects s ds sp ev r) =
       health_expenditure s + eventDelta ''health_expenditure'' ev
   \<and> infrastructure_investment (applyPolicyEffects s ds sp ev r) =
       decisionValue ds ''connectivity'' 5 + (decisionValue ds ''trust'' 50 - 50) / 100 * 0.3
         + spilloverTotal ''infrastructure'' sp + eventDelta ''infrastructure_investment'' ev"
proof (intro conjI)
  show "find (\<lambda>d. d_id d = k) ds = Some d \<and> d_value d \<noteq> 0 \<longrightarrow>
     (k = ''agriculture'' \<longrightarrow>
        agriculture_spending (applyPolicyEffects s ds sp ev r) = d_value d)
   \<and> (k = ''manufacturing'' \<longrightarrow>
        manufacturing_spending (applyPolicyEffects s ds sp ev r) = d_value d)
   \<and> (k = ''services'' \<longrightarrow>
        services_spending (applyPolicyEffects s ds sp ev r) = d_value d)
   \<and> (k = ''energy'' \<longrightarrow>
        energy_spending (applyPolicyEffects s ds sp ev r) = d_value d)
   \<and> (k = ''technology'' \<longrightarrow>
        technology_spending (applyPolicyEffects s ds sp ev r) = d_value d)
   \<and> (k = ''tariffs'' \<longrightarrow>
        tariff_rate (applyPolicyEffects s ds sp ev r) = d_value d)"
    by (auto simp add: applyPolicyEffects_def persistDecisions_def decisionValue_def
        orDefault_def)
qed (rule unpersisted_memory)+

text \<open>
  A tariff cut to \<open>5\<close>, decided after an energy decision, is what the state keeps, while
  a spillover and two event effects move the infrastructure and health fields.
\<close>

theorem persisted_levers_equal_decisions_witness:
  "find (\<lambda>d. d_id d = ''tariffs'') [mkDecision ''energy'' 6, mkDecision ''tariffs'' 5]
     = Some (mkDecision ''tariffs'' 5)
   \<and> d_value (mkDecision ''tariffs'' 5) \<noteq> 0
   \<and> tariff_rate (applyPolicyEffects exampleStats
        [mkDecision ''energy'' 6, mkDecision ''tariffs'' 5] [infrastructureSpillover]
        [(''infrastructure_investment'', - 1), (''health_expenditure'', 0.2)] 0.5) = 5
   \<and> education_spending (applyPolicyEffects exampleStats
        [mkDecision ''energy'' 6, mkDecision ''tariffs'' 5] [infrastructureSpillover]
        [(''infrastructure_investment'', - 1), (''health_expenditure'', 0.2)] 0.5) = 4
   \<and> health_expenditure (applyPolicyEffects exampleStats
        [mkDecision ''energy'' 6, mkDecision ''tariffs'' 5] [infrastructureSpillover]
        [(''infrastructure_investment'', - 1), (''health_expenditure'', 0.2)] 0.5) = 52.2
   \<and> infrastructure_investment (applyPolicyEffects exampleStats
        [mkDecision ''energy'' 6, mkDecision ''tariffs'' 5] [infrastructureSpillover]
        [(''infrastructure_investment'', - 1), (''health_expenditure'', 0.2)] 0.5) = 4.25"
  using persisted_levers_equal_decisions [of "''tariffs''" "[mkDecision ''energy'' 6, mkDecision ''tariffs'' 5]"
              "mkDecision ''tariffs'' 5" exampleStats "[infrastructureSpillover]"
              "[(''infrastructure_investment'', - 1), (''health_expenditure'', 0.2)]" "0.5"]
  by (simp add: mkDecision_def eventDelta_def spilloverTotal_def infrastructureSpillover_def
      exampleStats_def decisionValue_def orDefault_def)

text \<open>
  The other policy-memory fields do not follow the decisions. With a \<open>connectivity\<close>
  decision of \<open>8\<close> and a \<open>trust\<close> decision of \<open>60\<close>, and no spillover or event,
  \<open>infrastructure_investment\<close> comes out as \<open>8.03\<close>: the decision plus the share of the
  cooperation effect. With an \<open>education\<close> decision of \<open>6\<close>, \<open>education_spending\<close> keeps
  its previous value \<open>4\<close>: this version of the function reads no such decision.
\<close>

theorem policy_memory_counterexample:
  "infrastructure_investment (applyPolicyEffects exampleStats
      [mkDecision ''connectivity'' 8, mkDecision ''trust'' 60] [] [] 0.5) = 8.03
   \<and> infrastructure_investment (applyPolicyEffects exampleStats
      [mkDecision ''connectivity'' 8, mkDecision ''trust'' 60] [] [] 0.5)
        \<noteq> d_value (mkDecision ''connectivity'' 8)
   \<and> education_spending exampleStats = 4
   \<and> education_spending
        (applyPolicyEffects exampleStats [mkDecision ''education'' 6] [] [] 0.5) = 4
   \<and> education_spending
        (applyPolicyEffects exampleStats [mkDecision ''education'' 6] [] [] 0.5)
        \<noteq> d_value (mkDecision ''education'' 6)"
  by (simp add: infrastructure_investment_plain education_spending_plain decisionValue_def
      orDefault_def mkDecision_def exampleStats_def)

section \<open>Zero-valued decisions\<close>

lemma decisionValue_skip_zero:
  "d_value d = 0 \<Longrightarrow> \<forall>e\<in>set ys. d_id e \<noteq> d_id d \<Longrightarrow>
   decisionValue (xs @ d # ys) k dflt = decisionValue (xs @ ys) k dflt"
  by (induction xs)
     (auto simp: decisionValue_def orDefault_def find_Some_iff split: option.splits)

lemma decisionValue_zero_default:
  "d_value d = 0 \<Longrightarrow> \<forall>e\<in>set xs. d_id e \<noteq> d_id d \<Longrightarrow>
   decisionValue (xs @ d # ys) (d_id d) dflt = dflt"
  by (induction xs) (auto simp: decisionValue_def orDefault_def)

text \<open>
  C10. A decision whose value is \<open>0\<close> cannot be told from a missing one. Let \<open>d\<close> have the
  value \<open>0\<close> and let no later decision of the list have its id. Then
  \<open>applyPolicyEffects\<close> returns the same state with \<open>d\<close> in the list as without it. If
  no earlier decision has the id either, the lookup \<open>find(...)?.value || dflt\<close> of that id
  gives the default, whatever the default is (\<open>15\<close> for \<open>tariffs\<close>, \<open>60\<close> for \<open>ntbs\<close>,
  \<open>5.0\<close> for \<open>connectivity\<close>, and so on), and for \<open>tariffs\<close> the persisted \<open>tariff_rate\<close>
  is \<open>15\<close>, not \<open>0\<close>.
\<close>

theorem zero_decision_is_missing:
  assumes "d_value d = 0" and "\<forall>e\<in>set ys. d_id e \<noteq> d_id d"
  shows "applyPolicyEffects s (xs @ d # ys) sp ev r = applyPolicyEffects s (xs @ ys) sp ev r
       \<and> ((\<forall>e\<in>set xs. d_id e \<noteq> d_id d) \<longrightarrow>
            decisionValue (xs @ d # ys) (d_id d) dflt = dflt
          \<and> (d_id d = ''tariffs'' \<longrightarrow>
               tariff_rate (applyPolicyEffects s (xs @ d # ys) sp ev r) = 15))"
proof (intro conjI impI)
  show "applyPolicyEffects s (xs @ d # ys) sp ev r = applyPolicyEffects s (xs @ ys) sp ev r"
    unfolding applyPolicyEffects_def unboundedStats_def persistDecisions_def applyDecisions_def
    by (simp only: decisionValue_skip_zero [OF assms])
next
  assume "\<forall>e\<in>set xs. d_id e \<noteq> d_id d"
  then show "decisionValue (xs @ d # ys) (d_id d) dflt = dflt"
    by (rule decisionValue_zero_default [OF assms(1)])
next
  assume first: "\<forall>e\<in>set xs. d_id e \<noteq> d_id d" and tariffs: "d_id d = ''tariffs''"
  have "decisionValue (xs @ d # ys) (d_id d) 15 = 15"
    using first by (rule decisionValue_zero_default [OF assms(1)])
  then show "tariff_rate (applyPolicyEffects s (xs @ d # ys) sp ev r) = 15"
    by (simp add: tariff_rate_applyPolicyEffects tariffs)
qed

theorem zero_decision_is_missing_witness:
  "d_value (mkDecision ''tariffs'' 0) = 0
   \<and> applyPolicyEffects exampleStats [mkDecision ''tariffs'' 0] [] [] 0.5 =
       applyPolicyEffects exampleStats [] [] [] 0.5
   \<and> decisionValue [mkDecision ''tariffs'' 0] ''tariffs'' 15 = 15
   \<and> tariff_rate (applyPolicyEffects exampleStats [mkDecision ''tariffs'' 0] [] [] 0.5) = 15"
  using zero_decision_is_missing
          [of "mkDecision ''tariffs'' 0" "[]" exampleStats "[]" "[]" "[]" "0.5" 15]
  by (simp add: mkDecision_def tariff_rate_applyPolicyEffects decisionValue_def)

section \<open>Inbound spillovers\<close>

text \<open>
  A spillover and an event effect add to \<open>gdp_growth\<close> and to \<open>literacy_rate\<close> an amount
  that does not depend on the state they are applied to.
\<close>

lemma applySpillover_gdp_shift:
  "gdp_growth (applySpillover s sp) - gdp_growth s =
   gdp_growth (applySpillover t sp) - gdp_growth t"
  by (simp add: applySpillover_def)

lemma applySpillover_literacy_shift:
  "literacy_rate (applySpillover s sp) - literacy_rate s =
   literacy_rate (applySpillover t sp) - literacy_rate t"
  by (simp add: applySpillover_def)

lemma foldl_applySpillover_gdp_shift:
  "gdp_growth (foldl applySpillover s sps) - gdp_growth s =
   gdp_growth (foldl applySpillover t sps) - gdp_growth t"
proof (induction sps arbitrary: s t)
  case Nil
  show ?case by simp
next
  case (Cons a sps)
  from Cons.IH [of "applySpillover s a" "applySpillover t a"]
    applySpillover_gdp_shift [of s a t]
  show ?case by simp
qed

lemma foldl_applySpillover_literacy_shift:
  "literacy_rate (foldl applySpillover s sps) - literacy_rate s =
   literacy_rate (foldl applySpillover t sps) - literacy_rate t"
proof (induction sps arbitrary: s t)
  case Nil
  show ?case by simp
next
  case (Cons a sps)
  from Cons.IH [of "applySpillover s a" "applySpillover t a"]
    applySpillover_literacy_shift [of s a t]
  show ?case by simp
qed

lemma applyEventEffect_gdp_shift:
  "gdp_growth (applyEventEffect s kv) - gdp_growth s =
   gdp_growth (applyEventEffect t kv) - gdp_growth t"
  by (simp add: applyEventEffect_def Let_def split: option.splits)

lemma applyEventEffect_literacy_shift:
  "literacy_rate (applyEventEffect s kv) - literacy_rate s =
   literacy_rate (applyEventEffect t kv) - literacy_rate t"
  by (simp add: applyEventEffect_def Let_def split: option.splits)

lemma foldl_applyEventEffect_gdp_shift:
  "gdp_growth (foldl applyEventEffect s ev) - gdp_growth s =
   gdp_growth (foldl applyEventEffect t ev) - gdp_growth t"
proof (induction ev arbitrary: s t)
  case Nil
  show ?case by simp
next
  case (Cons a ev)
  from Cons.IH [of "applyEventEffect s a" "applyEventEffect t a"]
    applyEventEffect_gdp_shift [of s a t]
  show ?case by simp
qed

lemma foldl_applyEventEffect_literacy_shift:
  "literacy_rate (foldl applyEventEffect s ev) - literacy_rate s =
   literacy_rate (foldl applyEventEffect t ev) - literacy_rate t"
proof (induction ev arbitrary: s t)
  case Nil
  show ?case by simp
next
  case (Cons a ev)
  from Cons.IH [of "applyEventEffect s a" "applyEventEffect t a"]
    applyEventEffect_literacy_shift [of s a t]
  show ?case by simp
qed

text \<open>
  C7. An inbound spillover of type \<open>technology\<close> with effect \<open>e\<close>, at any place in the
  list of spillovers, adds exactly \<open>0.15 * e\<close> to \<open>gdp_growth\<close> and \<open>0.3 * e\<close> to
  \<open>literacy_rate\<close>, compared with the run without it on the same state, decisions, other
  spillovers, event effects and random draw, measured before the bounds are applied. With
  no other spillover this is the comparison with the run without spillovers; an effect
  of \<open>0.2\<close> raises \<open>literacy_rate\<close> by \<open>0.06\<close>.
\<close>

theorem technology_spillover_adds:
  assumes "policyType sp = ''technology''"
  shows "gdp_growth (unboundedStats s ds (xs @ sp # ys) ev r) =
           gdp_growth (unboundedStats s ds (xs @ ys) ev r) + 0.15 * effect sp
       \<and> literacy_rate (unboundedStats s ds (xs @ sp # ys) ev r) =
           literacy_rate (unboundedStats s ds (xs @ ys) ev r) + 0.3 * effect sp"
proof -
  define base where "base = foldl applySpillover (applyDecisions s ds) xs"
  define hit where "hit = applySpillover base sp"
  have g0: "gdp_growth hit = gdp_growth base + 0.15 * effect sp"
    and l0: "literacy_rate hit = literacy_rate base + 0.3 * effect sp"
    using assms by (simp_all add: hit_def applySpillover_def)
  have g1: "gdp_growth (foldl applySpillover hit ys) =
            gdp_growth (foldl applySpillover base ys) + 0.15 * effect sp"
    using foldl_applySpillover_gdp_shift [of hit ys base] g0 by simp
  have l1: "literacy_rate (foldl applySpillover hit ys) =
            literacy_rate (foldl applySpillover base ys) + 0.3 * effect sp"
    using foldl_applySpillover_literacy_shift [of hit ys base] l0 by simp
  have g2: "gdp_growth (foldl applyEventEffect (foldl applySpillover hit ys) ev) =
            gdp_growth (foldl applyEventEffect (foldl applySpillover base ys) ev)
              + 0.15 * effect sp"
    using foldl_applyEventEffect_gdp_shift
            [of "foldl applySpillover hit ys" ev "foldl applySpillover base ys"] g1
    by simp
  have l2: "literacy_rate (foldl applyEventEffect (foldl applySpillover hit ys) ev) =
            literacy_rate (foldl applyEventEffect (foldl applySpillover base ys) ev)
              + 0.3 * effect sp"
    using foldl_applyEventEffect_literacy_shift
            [of "foldl applySpillover hit ys" ev "foldl applySpillover base ys"] l1
    by simp
  show ?thesis
    using g2 l2 by (simp add: unboundedStats_def addVariation_def base_def hit_def)
qed

theorem technology_spillover_adds_witness:
  "policyType technologySpillover = ''technology''
   \<and> effect technologySpillover = 0.2
   \<and> literacy_rate (unboundedStats exampleStats [] [technologySpillover] [] 0.5) =
       literacy_rate (unboundedStats exampleStats [] [] [] 0.5) + 0.06
   \<and> gdp_growth (unboundedStats exampleStats [] [technologySpillover] [] 0.5) =
       gdp_growth (unboundedStats exampleStats [] [] [] 0.5) + 0.03"
  using technology_spillover_adds [of technologySpillover exampleStats "[]" "[]" "[]" "[]" "0.5"]
  by (simp add: technologySpillover_def)

section \<open>Scoring\<close>

text \<open>
  C5. \<open>calculateScore\<close> is a total function whose value always lies in \<open>[0, 1000]\<close>, and
  the score of a state against itself is \<open>500\<close>: the seven weighted deltas are all \<open>0\<close>,
  their sum is \<open>0\<close>, the base \<open>400\<close> and the balance bonus \<open>100\<close> are added, the penalty
  does not apply, and the clamp leaves \<open>500\<close> as it is.
\<close>

theorem calculateScore_range_and_identity:
  "0 \<le> calculateScore f i \<and> calculateScore f i \<le> 1000
   \<and> improvements x x = [0, 0, 0, 0, 0, 0, 0]
   \<and> calculateScore x x = 500"
  by (simp add: calculateScore_def improvements_def Let_def)

section \<open>Aggregate spillovers\<close>

lemma extractPolicyChange_other:
  assumes "k \<notin> set extractedKeys"
  shows "extractPolicyChange pc d k = pc k"
  using assms unfolding extractPolicyChange_def extractedKeys_def
  by (simp only: set_simps insert_iff empty_iff de_Morgan_disj fun_upd_apply
      if_distrib [of "\<lambda>f. f k"] simp_thms if_False if_cancel)

lemma foldl_extractPolicyChange_other:
  "k \<notin> set extractedKeys \<Longrightarrow> foldl extractPolicyChange pc ds k = pc k"
  by (induction ds arbitrary: pc) (simp_all add: extractPolicyChange_other)

lemma extractPolicyChanges_unread:
  "extractPolicyChanges ds ''gdp_growth'' = None"
  "extractPolicyChanges ds ''infrastructure_investment'' = None"
  "extractPolicyChanges ds ''co2_emissions'' = None"
  "extractPolicyChanges ds ''manufacturing_investment'' = None"
  "extractPolicyChanges ds ''technology_investment'' = None"
  "extractPolicyChanges ds ''energy_investment'' = None"
  by (simp_all add: extractPolicyChanges_def foldl_extractPolicyChange_other extractedKeys_def)

lemma edgeSpillovers_extracted: "edgeSpillovers src (extractPolicyChanges ds) t = []"
  by (simp add: edgeSpillovers_def whenTruthy_def extractPolicyChanges_unread)

lemma calculateTradeSpillovers_extracted:
  "calculateTradeSpillovers src (extractPolicyChanges ds) tm = []"
  by (simp add: calculateTradeSpillovers_def edgeSpillovers_extracted)

lemma collectSpillovers_unchanged: "collectSpillovers ad tm acc name = acc"
  by (simp add: collectSpillovers_def calculateTradeSpillovers_extracted)

lemma foldl_collectSpillovers_unchanged: "foldl (collectSpillovers ad tm) acc names = acc"
  by (induction names) (simp_all add: collectSpillovers_unchanged)

text \<open>
  C2. For every map of country states, every map of decision lists and every trade
  matrix, \<open>simulateRegionalEffects\<close> returns the empty map: the keys that the switch on
  \<open>decision.id\<close> writes are none of the keys that \<open>calculateTradeSpillovers\<close> tests, so
  \<open>calculateTradeSpillovers\<close> returns the empty list for every source country and every
  list of decisions.
\<close>

theorem simulateRegionalEffects_empty:
  "simulateRegionalEffects allCountries allDecisions tradeMatrix = Map.empty
   \<and> calculateTradeSpillovers src (extractPolicyChanges ds) tradeMatrix = []"
  by (simp add: simulateRegionalEffects_def foldl_collectSpillovers_unchanged
      calculateTradeSpillovers_extracted)

section \<open>Spillovers over an edge without cooperation\<close>

lemma calculateTradeSpillovers_edge:
  "calculateTradeSpillovers src pc (pre @ trade # post) =
     calculateTradeSpillovers src pc pre
     @ (if tr_from trade = src \<or> tr_to trade = src then edgeSpillovers src pc trade else [])
     @ calculateTradeSpillovers src pc post"
  by (simp add: calculateTradeSpillovers_def)

text \<open>
  C8. Let a trade edge have \<open>cooperation = 0\<close>. Whatever the policy changes, every
  spillover that \<open>calculateTradeSpillovers\<close> produces for this edge with a formula that
  contains \<open>cooperationFactor\<close> (the types \<open>trade_gdp\<close> and \<open>technology\<close>) has the effect
  \<open>0\<close>. The spillovers of the edge are \<open>edgeSpillovers\<close>, the part of the result of
  \<open>calculateTradeSpillovers\<close> that the edge contributes.
\<close>

theorem zero_cooperation_spillovers:
  assumes "cooperation trade = 0"
  shows "(\<forall>sp\<in>set (edgeSpillovers src pc trade).
            policyType sp = ''trade_gdp'' \<or> policyType sp = ''technology'' \<longrightarrow> effect sp = 0)
       \<and> calculateTradeSpillovers src pc (pre @ trade # post) =
           calculateTradeSpillovers src pc pre
           @ (if tr_from trade = src \<or> tr_to trade = src
              then edgeSpillovers src pc trade else [])
           @ calculateTradeSpillovers src pc post"
proof (rule conjI)
  show "\<forall>sp\<in>set (edgeSpillovers src pc trade).
          policyType sp = ''trade_gdp'' \<or> policyType sp = ''technology'' \<longrightarrow> effect sp = 0"
    using assms
    by (auto simp: edgeSpillovers_def whenTruthy_def Let_def split: option.splits if_splits)
  show "calculateTradeSpillovers src pc (pre @ trade # post) =
           calculateTradeSpillovers src pc pre
           @ (if tr_from trade = src \<or> tr_to trade = src
              then edgeSpillovers src pc trade else [])
           @ calculateTradeSpillovers src pc post"
    by (rule calculateTradeSpillovers_edge)
qed

text \<open>
  On the edge from India to Nepal with no cooperation, growth and technology changes
  spill over with effect \<open>0\<close>, while the environmental spillover, whose formula has no
  cooperation factor, keeps its effect.
\<close>

theorem zero_cooperation_spillovers_witness:
  "cooperation frozenEdge = 0
   \<and> map (\<lambda>sp. (policyType sp, effect sp))
        (calculateTradeSpillovers ''India''
           [''gdp_growth'' \<mapsto> 2, ''technology_investment'' \<mapsto> 3, ''co2_emissions'' \<mapsto> 1]
           [frozenEdge])
       = [(''trade_gdp'', 0), (''environment'', 0.08), (''technology'', 0)]"
  using zero_cooperation_spillovers [of frozenEdge "''India''"
          "[''gdp_growth'' \<mapsto> 2, ''technology_investment'' \<mapsto> 3, ''co2_emissions'' \<mapsto> 1]"
          "[]" "[]"]
  by (simp add: frozenEdge_def calculateTradeSpillovers_def edgeSpillovers_def whenTruthy_def
      Let_def)

section \<open>Bounds of the trade matrix\<close>

lemma updateTrade_bounds:
  "0 \<le> tradeVolume (updateTrade pcs t)" "0 \<le> tariffRate (updateTrade pcs t)"
  "tariffRate (updateTrade pcs t) \<le> 50"
  by (simp_all add: updateTrade_def Let_def)

lemma updateTrade_cooperation:
  "0 \<le> cooperation t \<Longrightarrow> cooperation t \<le> 100 \<Longrightarrow>
   0 \<le> cooperation (updateTrade pcs t) \<and> cooperation (updateTrade pcs t) \<le> 100"
  by (simp add: updateTrade_def Let_def)

lemma updateTrade_busyEdge:
  "updateTrade connectivityPush busyEdge =
     \<lparr>tr_from = ''India'', tr_to = ''Nepal'', tradeVolume = 110, tariffRate = 5,
      cooperation = 100\<rparr>"
  by (simp add: busyEdge_def connectivityPush_def updateTrade_def
      changesOf_def truthy_def lookupOr_def orDefault_def)

text \<open>
  C9, as the code has it. For every matrix and every map of policy changes, every edge
  that \<open>updateTradeMatrix\<close> returns has a \<open>tradeVolume\<close> of at least \<open>0\<close> and a
  \<open>tariffRate\<close> within \<open>[0, 50]\<close>; when the \<open>cooperation\<close> of every edge of the input lies
  within \<open>[0, 100]\<close>, so does the \<open>cooperation\<close> of every edge of the result. The trade
  volume has a lower bound only.
\<close>

theorem updateTradeMatrix_bounds:
  assumes "\<forall>t\<in>set m. 0 \<le> cooperation t \<and> cooperation t \<le> 100"
  shows "\<forall>t\<in>set (updateTradeMatrix m pcs).
           0 \<le> tradeVolume t \<and> 0 \<le> tariffRate t \<and> tariffRate t \<le> 50
           \<and> 0 \<le> cooperation t \<and> cooperation t \<le> 100"
  using assms by (auto simp: updateTradeMatrix_def updateTrade_bounds updateTrade_cooperation)

theorem updateTradeMatrix_bounds_witness:
  "0 \<le> cooperation busyEdge \<and> cooperation busyEdge \<le> 100
   \<and> updateTradeMatrix [busyEdge] connectivityPush =
       [\<lparr>tr_from = ''India'', tr_to = ''Nepal'', tradeVolume = 110, tariffRate = 5,
         cooperation = 100\<rparr>]"
  using updateTradeMatrix_bounds [of "[busyEdge]" connectivityPush]
  by (simp add: updateTradeMatrix_def updateTrade_busyEdge) (simp add: busyEdge_def)

text \<open>
  An edge within all three bounds, with a trade volume of \<open>100\<close>, leaves the scale: a
  connectivity of \<open>10\<close> on both sides multiplies the volume by \<open>1.1\<close>.
\<close>

theorem updateTradeMatrix_volume_counterexample:
  "0 \<le> tradeVolume busyEdge \<and> tradeVolume busyEdge \<le> 100
   \<and> 0 \<le> tariffRate busyEdge \<and> tariffRate busyEdge \<le> 50
   \<and> 0 \<le> cooperation busyEdge \<and> cooperation busyEdge \<le> 100
   \<and> map tradeVolume (updateTradeMatrix [busyEdge] connectivityPush) = [110]
   \<and> \<not> list_all (\<lambda>t. tradeVolume t \<le> 100) (updateTradeMatrix [busyEdge] connectivityPush)"
  by (simp add: updateTradeMatrix_def updateTrade_busyEdge) (simp add: busyEdge_def)

section \<open>Regional events\<close>

lemma firstTriggered_from_list:
  "firstTriggered roster yr ci rnd i xs = Some ev \<Longrightarrow> \<exists>c\<in>set xs. e_id ev = c_id c"
  by (induction xs arbitrary: i) (auto split: if_splits)

lemma eventPool_distinct_ids: "distinct (map c_id eventPool)"
  by (simp add: eventPool_def)

lemma eventPool_id_determines:
  "c \<in> set eventPool \<Longrightarrow> c' \<in> set eventPool \<Longrightarrow> c_id c = c_id c' \<Longrightarrow> c = c'"
  using eventPool_distinct_ids by (meson distinct_map inj_onD)

lemma stability_not_in_pool: "c \<in> set eventPool \<Longrightarrow> c_id c \<noteq> ''no_major_event''"
  by (auto simp: eventPool_def)

lemma set_insertBy: "set (fst (insertBy rnd i x ys)) = insert x (set ys)"
proof (induction ys arbitrary: i)
  case Nil
  show ?case by simp
next
  case (Cons y ys)
  obtain zs j where r: "insertBy rnd (Suc i) x ys = (zs, j)"
    by (cases "insertBy rnd (Suc i) x ys")
  with Cons.IH [of "Suc i"] have "set zs = insert x (set ys)" by simp
  with r show ?case by auto
qed

lemma set_insertionSort: "set (fst (insertionSort rnd i xs)) = set xs"
proof (induction xs)
  case Nil
  show ?case by simp
next
  case (Cons x xs)
  obtain ys j where s: "insertionSort rnd i xs = (ys, j)"
    by (cases "insertionSort rnd i xs")
  with Cons.IH have "set ys = set xs" by simp
  with s show ?case by (simp add: set_insertBy)
qed

lemma insertionSort_from_array:
  "\<forall>rnd i (xs :: CatalogEvent list). set (fst (insertionSort rnd i xs)) \<subseteq> set xs"
  by (simp add: set_insertionSort)

text \<open>
  C6. Let the sort of the engine return only elements of the array it is given. Then for
  every year, cooperation index, history and sequence of draws, no event that
  \<open>generateRegionalEvents\<close> returns has the id of a catalog entry that is flagged
  \<open>unique\<close> and occurs in the history: such entries are filtered out before the sort and
  the selection.
\<close>

theorem unique_events_never_recur:
  assumes sorted_from_array: "\<forall>rnd i xs. set (fst (sortArray rnd i xs)) \<subseteq> set xs"
  shows "\<forall>ev\<in>set (generateRegionalEvents sortArray roster yr ci history rnd).
           \<not> (\<exists>c\<in>set eventPool. c_unique c \<and> c_id c = e_id ev
                                  \<and> e_id ev \<in> set (map e_id history))"
proof (intro ballI notI)
  fix ev
  assume ret: "ev \<in> set (generateRegionalEvents sortArray roster yr ci history rnd)"
    and bad: "\<exists>c\<in>set eventPool. c_unique c \<and> c_id c = e_id ev
                \<and> e_id ev \<in> set (map e_id history)"
  from bad obtain c where c: "c \<in> set eventPool" "c_unique c" "c_id c = e_id ev"
    "e_id ev \<in> set (map e_id history)"
    by blast
  define potentialEvents where
    "potentialEvents =
       filter (\<lambda>event. \<not> (c_unique event \<and> c_id event \<in> set (map e_id history))) eventPool"
  define shuffled where "shuffled = sortArray rnd 1 potentialEvents"
  from ret have open_gate: "\<not> gateCloses (rnd 0)"
    by (auto simp: generateRegionalEvents_def split: if_splits)
  from ret open_gate consider
      (triggered) "firstTriggered roster yr ci rnd (snd shuffled) (fst shuffled) = Some ev"
    | (stability) "ev = stabilityEvent roster yr"
    by (auto simp: generateRegionalEvents_def Let_def potentialEvents_def shuffled_def
             split: option.splits if_splits)
  then show False
  proof cases
    case triggered
    then obtain c' where c': "c' \<in> set (fst shuffled)" "e_id ev = c_id c'"
      using firstTriggered_from_list by blast
    from c'(1) sorted_from_array have "c' \<in> set potentialEvents"
      unfolding shuffled_def by blast
    then have in_pool: "c' \<in> set eventPool"
      and kept: "\<not> (c_unique c' \<and> c_id c' \<in> set (map e_id history))"
      by (simp_all add: potentialEvents_def)
    from eventPool_id_determines [OF c(1) in_pool] c(3) c'(2) have "c = c'"
      by simp
    with c c'(2) kept show False
      by simp
  next
    case stability
    with c(3) stability_not_in_pool [OF c(1)] show False
      by (simp add: stabilityEvent_def)
  qed
qed

text \<open>
  With draws that are all \<open>0\<close> the insertion sort puts the earthquake first and it is
  returned; once the earthquake is in the history, the same draws return the next event.
\<close>

theorem unique_events_never_recur_witness:
  "(\<forall>rnd i (xs :: CatalogEvent list). set (fst (insertionSort rnd i xs)) \<subseteq> set xs)
   \<and> map e_id [earthquake2024] = [''himalayan_earthquake'']
   \<and> map e_id (generateRegionalEvents insertionSort roster8 2025 65 [] (\<lambda>n. 0))
       = [''himalayan_earthquake'']
   \<and> map e_id (generateRegionalEvents insertionSort roster8 2025 65 [earthquake2024] (\<lambda>n. 0))
       = [''health_breakthrough'']"
  using unique_events_never_recur
          [OF insertionSort_from_array, of roster8 2025 65 "[earthquake2024]" "\<lambda>n. 0"]
  by (simp add: set_insertionSort generateRegionalEvents_def gateCloses_def eventPool_def
      effectiveProbability_def earthquake2024_def)

subsection \<open>The gate\<close>

lemma length_filter_ge: "length (filter (\<lambda>k. a \<le> k) [0..<N]) = N - a"
  by (induction N) (auto simp: Suc_diff_le)

lemma gateCloses_grid:
  assumes "0 < N"
  shows "gateCloses (real k / real N) \<longleftrightarrow> (6 * N) div 10 + 1 \<le> k"
proof -
  have "gateCloses (real k / real N) \<longleftrightarrow> 6 * real N < 10 * real k"
    using assms by (simp add: gateCloses_def field_simps)
  also have "\<dots> \<longleftrightarrow> 6 * N < 10 * k"
    by (metis (mono_tags, opaque_lifting) of_nat_less_iff of_nat_mult of_nat_numeral)
  also have "\<dots> \<longleftrightarrow> (6 * N) div 10 + 1 \<le> k"
    by arith
  finally show ?thesis .
qed

lemma gateClosedShare_count:
  assumes "0 < N"
  shows "gateClosedShare N = real (N - ((6 * N) div 10 + 1)) / real N"
  using assms by (simp add: gateClosedShare_def gateCloses_grid length_filter_ge)

lemma gateClosedShare_bounds:
  assumes "0 < N"
  shows "4 / 10 - 1 / real N \<le> gateClosedShare N" and "gateClosedShare N \<le> 4 / 10"
proof -
  define c where "c = N - ((6 * N) div 10 + 1)"
  have lo: "4 * N \<le> 10 * c + 10" and hi: "10 * c \<le> 4 * N"
    unfolding c_def by arith+
  from lo have "4 * real N \<le> 10 * real c + 10"
    by (metis (mono_tags, opaque_lifting) of_nat_le_iff of_nat_mult of_nat_add of_nat_numeral)
  then show "4 / 10 - 1 / real N \<le> gateClosedShare N"
    using assms by (simp add: gateClosedShare_count c_def [symmetric] field_simps)
  from hi have "10 * real c \<le> 4 * real N"
    by (metis (mono_tags, opaque_lifting) of_nat_le_iff of_nat_mult of_nat_numeral)
  then show "gateClosedShare N \<le> 4 / 10"
    using assms by (simp add: gateClosedShare_count c_def [symmetric] field_simps)
qed

lemma generateRegionalEvents_closed:
  "rnd 0 > 6 / 10 \<Longrightarrow> generateRegionalEvents sortArray roster yr ci history rnd = []"
  by (simp add: generateRegionalEvents_def gateCloses_def)

lemma generateRegionalEvents_open:
  "rnd 0 \<le> 6 / 10 \<Longrightarrow>
   generateRegionalEvents sortArray roster yr ci history rnd =
     (case firstTriggered roster yr ci rnd
             (snd (sortArray rnd 1
                (filter (\<lambda>event. \<not> (c_unique event \<and> c_id event \<in> set (map e_id history)))
                   eventPool)))
             (fst (sortArray rnd 1
                (filter (\<lambda>event. \<not> (c_unique event \<and> c_id event \<in> set (map e_id history)))
                   eventPool))) of
        Some ev \<Rightarrow> [ev]
      | None \<Rightarrow> if yr mod 3 = 0 then [stabilityEvent roster yr] else [])"
  by (simp add: generateRegionalEvents_def gateCloses_def Let_def)

lemma stability_year_empty_iff:
  "yr mod 3 = 0 \<Longrightarrow>
   generateRegionalEvents sortArray roster yr ci history rnd = [] \<longleftrightarrow> gateCloses (rnd 0)"
  by (simp add: generateRegionalEvents_def Let_def split: option.splits)

lemma emptyReturnShare_stability_year:
  "yr mod 3 = 0 \<Longrightarrow>
   emptyReturnShare sortArray roster yr ci history rnd N = gateClosedShare N"
  by (simp add: emptyReturnShare_def gateClosedShare_def stability_year_empty_iff)

lemma gate_draw_first_event:
  "g \<le> 6 / 10 \<Longrightarrow>
   map e_id (generateRegionalEvents insertionSort roster8 2025 65 []
               (\<lambda>n. if n = 0 then g else 0)) = [''himalayan_earthquake'']"
  by (simp add: generateRegionalEvents_def gateCloses_def eventPool_def effectiveProbability_def)

text \<open>
  C4, as the code has it. The gate is drawn once, from the first draw of the call. When
  that draw is above \<open>0.6\<close> the function returns the empty list, whatever the year, the
  cooperation index, the history, the sort and the later draws. When it is at most \<open>0.6\<close>
  the function goes on to the catalog: the result is that of the filter, the sort and the
  walk, and in a year divisible by \<open>3\<close> it is never empty. So the call stops at the gate
  with probability \<open>0.4\<close> and proceeds with probability \<open>0.6\<close>: in a year divisible by
  \<open>3\<close>, where the gate is the only way to an empty result, of \<open>N\<close> equally likely first
  draws \<open>k / N\<close> the share of calls that return the empty list lies between
  \<open>0.4 - 1 / N\<close> and \<open>0.4\<close>.
\<close>

theorem event_gate_closes_above_threshold:
  "(rnd 0 > 6 / 10 \<longrightarrow> generateRegionalEvents sortArray roster yr ci history rnd = [])
   \<and> (rnd 0 \<le> 6 / 10 \<longrightarrow>
        generateRegionalEvents sortArray roster yr ci history rnd =
          (case firstTriggered roster yr ci rnd
                 (snd (sortArray rnd 1
                    (filter (\<lambda>event. \<not> (c_unique event \<and> c_id event \<in> set (map e_id history)))
                       eventPool)))
                 (fst (sortArray rnd 1
                    (filter (\<lambda>event. \<not> (c_unique event \<and> c_id event \<in> set (map e_id history)))
                       eventPool))) of
             Some ev \<Rightarrow> [ev]
           | None \<Rightarrow> if yr mod 3 = 0 then [stabilityEvent roster yr] else []))
   \<and> (rnd 0 \<le> 6 / 10 \<and> yr mod 3 = 0 \<longrightarrow>
        generateRegionalEvents sortArray roster yr ci history rnd \<noteq> [])
   \<and> (0 < N \<and> yr mod 3 = 0 \<longrightarrow>
        4 / 10 - 1 / real N \<le> emptyReturnShare sortArray roster yr ci history rnd N
        \<and> emptyReturnShare sortArray roster yr ci history rnd N \<le> 4 / 10)"
proof (intro conjI impI)
  assume "6 / 10 < rnd 0"
  then show "generateRegionalEvents sortArray roster yr ci history rnd = []"
    by (rule generateRegionalEvents_closed)
next
  assume "rnd 0 \<le> 6 / 10"
  then show "generateRegionalEvents sortArray roster yr ci history rnd =
          (case firstTriggered roster yr ci rnd
                 (snd (sortArray rnd 1
                    (filter (\<lambda>event. \<not> (c_unique event \<and> c_id event \<in> set (map e_id history)))
                       eventPool)))
                 (fst (sortArray rnd 1
                    (filter (\<lambda>event. \<not> (c_unique event \<and> c_id event \<in> set (map e_id history)))
                       eventPool))) of
             Some ev \<Rightarrow> [ev]
           | None \<Rightarrow> if yr mod 3 = 0 then [stabilityEvent roster yr] else [])"
    by (rule generateRegionalEvents_open)
next
  assume "rnd 0 \<le> 6 / 10 \<and> yr mod 3 = 0"
  then show "generateRegionalEvents sortArray roster yr ci history rnd \<noteq> []"
    by (simp add: stability_year_empty_iff gateCloses_def)
next
  assume a: "0 < N \<and> yr mod 3 = 0"
  then show "4 / 10 - 1 / real N \<le> emptyReturnShare sortArray roster yr ci history rnd N"
    using gateClosedShare_bounds(1) [of N] by (simp add: emptyReturnShare_stability_year)
  from a show "emptyReturnShare sortArray roster yr ci history rnd N \<le> 4 / 10"
    using gateClosedShare_bounds(2) [of N] by (simp add: emptyReturnShare_stability_year)
qed

theorem event_gate_closes_above_threshold_witness:
  "generateRegionalEvents insertionSort roster8 2025 65 [] (\<lambda>n. if n = 0 then 0.7 else 0) = []
   \<and> generateRegionalEvents insertionSort roster8 2025 65 []
        (\<lambda>n. if n = 0 then 0.3 else 0) \<noteq> []
   \<and> map e_id (generateRegionalEvents insertionSort roster8 2025 65 []
                 (\<lambda>n. if n = 0 then 0.3 else 0)) = [''himalayan_earthquake'']
   \<and> 3 / 10 \<le> emptyReturnShare insertionSort roster8 2025 65 [] (\<lambda>n. 0) 10
   \<and> emptyReturnShare insertionSort roster8 2025 65 [] (\<lambda>n. 0) 10 \<le> 4 / 10"
proof -
  have closed:
    "generateRegionalEvents insertionSort roster8 2025 65 []
       (\<lambda>n. if n = 0 then 0.7 else 0) = []"
    using event_gate_closes_above_threshold [of "\<lambda>n. if n = 0 then 0.7 else 0" insertionSort roster8 2025 65 "[]" 10,
        THEN conjunct1]
    by simp
  have opened:
    "generateRegionalEvents insertionSort roster8 2025 65 []
       (\<lambda>n. if n = 0 then 0.3 else 0) \<noteq> []"
    using event_gate_closes_above_threshold [of "\<lambda>n. if n = 0 then 0.3 else 0" insertionSort roster8 2025 65 "[]" 10,
        THEN conjunct2, THEN conjunct2, THEN conjunct1]
    by simp
  have share:
    "3 / 10 \<le> emptyReturnShare insertionSort roster8 2025 65 [] (\<lambda>n. 0) 10
     \<and> emptyReturnShare insertionSort roster8 2025 65 [] (\<lambda>n. 0) 10 \<le> 4 / 10"
    using event_gate_closes_above_threshold [of "\<lambda>n. 0" insertionSort roster8 2025 65 "[]" 10,
        THEN conjunct2, THEN conjunct2, THEN conjunct2]
    by simp
  have first:
    "map e_id (generateRegionalEvents insertionSort roster8 2025 65 []
                 (\<lambda>n. if n = 0 then 0.3 else 0)) = [''himalayan_earthquake'']"
    by (rule gate_draw_first_event) simp
  from closed opened share first show ?thesis
    by blast
qed

text \<open>
  In \<open>2025\<close>, with later draws that let the first event of the walk fire, the first draws
  \<open>0.5\<close> and \<open>0.6\<close> pass the gate and an event is returned, the first draw \<open>0.61\<close>
  returns the empty list, and of the hundred first draws \<open>0.00\<close>, \<open>0.01\<close>, ..., \<open>0.99\<close>
  the call returns the empty list on \<open>39\<close> (\<open>0.61\<close> to \<open>0.99\<close>), not on \<open>60\<close>.
\<close>

theorem event_gate_counterexample:
  "map e_id (generateRegionalEvents insertionSort roster8 2025 65 []
               (\<lambda>n. if n = 0 then 0.5 else 0)) = [''himalayan_earthquake'']
   \<and> map e_id (generateRegionalEvents insertionSort roster8 2025 65 []
               (\<lambda>n. if n = 0 then 0.6 else 0)) = [''himalayan_earthquake'']
   \<and> generateRegionalEvents insertionSort roster8 2025 65 []
               (\<lambda>n. if n = 0 then 0.61 else 0) = []
   \<and> emptyReturnShare insertionSort roster8 2025 65 [] (\<lambda>n. 0) 100 = 39 / 100
   \<and> emptyReturnShare insertionSort roster8 2025 65 [] (\<lambda>n. 0) 100 \<noteq> 60 / 100"
proof -
  have "gateClosedShare 100 = 39 / 100"
    by (simp add: gateCloses_def gateClosedShare_def upt_rec [of _ "numeral _"]
        upt_rec [of _ "Suc _"])
  then have share: "emptyReturnShare insertionSort roster8 2025 65 [] (\<lambda>n. 0) 100 = 39 / 100"
    by (simp add: emptyReturnShare_stability_year)
  show ?thesis
    by (simp add: share gate_draw_first_event generateRegionalEvents_closed)
qed

end
